theory Spec2Isabelle
  imports Complex_Main "HOL-Library.Sublist" "HOL-Library.Word"
begin

section \<open>JavaScript strings\<close>

text \<open>
  A JavaScript string is modelled as a \<^typ>\<open>string\<close>: the list of its code units, here
  restricted to the code units below 256. \<open>length\<close> is the \<open>.length\<close> property.
\<close>

definition startsWith :: "string \<Rightarrow> string \<Rightarrow> bool" where
  \<comment> \<open>\<open>s.startsWith(p)\<close>\<close>
  "startsWith s p = (take (length p) s = p)"

fun split_char :: "char \<Rightarrow> string \<Rightarrow> string list" where
  \<comment> \<open>\<open>s.split(c)\<close> for a one-character separator; the empty string gives one empty piece\<close>
  "split_char sep [] = [[]]"
| "split_char sep (c # cs) =
     (if c = sep then [] # split_char sep cs
      else (case split_char sep cs of
              [] \<Rightarrow> [[c]]
            | p # ps \<Rightarrow> (c # p) # ps))"

definition isWhiteSpace :: "char \<Rightarrow> bool" where
  \<comment> \<open>ECMAScript WhiteSpace and LineTerminator code units below 256:
      TAB, LF, VT, FF, CR, SP and NBSP\<close>
  "isWhiteSpace c = ((of_char c :: nat) \<in> {9, 10, 11, 12, 13, 32, 160})"

definition isDigit :: "char \<Rightarrow> bool" where
  "isDigit c = (48 \<le> (of_char c :: nat) \<and> (of_char c :: nat) \<le> 57)"

definition digitsValue :: "string \<Rightarrow> int" where
  "digitsValue ds = foldl (\<lambda>a c. 10 * a + (int (of_char c) - 48)) 0 ds"

definition parseInt10 :: "string \<Rightarrow> int option" where
  \<comment> \<open>\<open>parseInt(s, 10)\<close>: leading white space is skipped, one sign is read, then the
      longest run of decimal digits; \<open>None\<close> is NaN (no digit). The value is kept as an
      unbounded integer: it is only ever compared with a string length, and the rounding
      of a numeral beyond \<open>2^53\<close> to a double does not change that comparison for any
      string a JavaScript engine can hold.\<close>
  "parseInt10 s =
     (let t = dropWhile isWhiteSpace s;
          sign = (case t of c # _ \<Rightarrow> if c = CHR ''-'' then (-1::int) else 1 | [] \<Rightarrow> 1);
          u = (case t of c # r \<Rightarrow> if c = CHR ''-'' \<or> c = CHR ''+'' then r else t | [] \<Rightarrow> t);
          ds = takeWhile isDigit u
      in if ds = [] then None else Some (sign * digitsValue ds))"

section \<open>Variable Processor\<close>

text \<open>
  \<^verbatim>\<open>
  function validateVariableValue(value: string, rules: string): boolean {
    const ruleList = rules.split('|');
    for (const rule of ruleList) {
      switch (true) {
        case rule === 'nullable':
          if (value === '') return true;
          break;
        case rule === 'string':
          break;
        case rule.startsWith('max:'):
          const max = parseInt(rule.slice(4), 10);
          if (!isNaN(max) && value.length > max) return false;
          break;
      }
    }
    return true;
  }
  \<close>
\<close>

fun validateRules :: "string \<Rightarrow> string list \<Rightarrow> bool" where
  \<comment> \<open>the \<open>for\<close> loop over \<open>ruleList\<close>\<close>
  "validateRules val [] = True"
| "validateRules val (rule # rest) =
     (if rule = ''nullable'' then (if val = [] then True else validateRules val rest)
      else if rule = ''string'' then validateRules val rest
      else if startsWith rule ''max:'' then
        (case parseInt10 (drop 4 rule) of
           None \<Rightarrow> validateRules val rest
         | Some mx \<Rightarrow> if int (length val) > mx then False else validateRules val rest)
      else validateRules val rest)"

definition validateVariableValue :: "string \<Rightarrow> string \<Rightarrow> bool" where
  "validateVariableValue val rules = validateRules val (split_char CHR ''|'' rules)"


text \<open>
  \<open>String.prototype.replace(searchString, replaceValue)\<close> with two strings replaces the
  first occurrence of \<open>searchString\<close> only, and expands the patterns \<open>$$\<close>, \<open>$&\<close>,
  \<open>$`\<close> and \<open>$'\<close> of \<open>replaceValue\<close> (ECMAScript GetSubstitution with no captures:
  \<open>$n\<close> and \<open>$<\<close> stay literal).
\<close>

fun split_first :: "string \<Rightarrow> string \<Rightarrow> (string \<times> string) option" where
  \<comment> \<open>the text before and after the first occurrence of the pattern (\<open>indexOf\<close>)\<close>
  "split_first p [] = (if p = [] then Some ([], []) else None)"
| "split_first p (c # cs) =
     (if startsWith (c # cs) p then Some ([], drop (length p) (c # cs))
      else (case split_first p cs of
              None \<Rightarrow> None
            | Some (b, a) \<Rightarrow> Some (c # b, a)))"





text \<open>
  \<^verbatim>\<open>
  variables: Array<{ name: string; description?: string; defaultValue: string;
                     currentValue?: string; rules: string; }>
  \<close>
\<close>

record variable =
  name :: string
  description :: "string option"
  defaultValue :: string
  currentValue :: "string option"
  rules :: string

datatype error = Error string







section \<open>Paths\<close>

text \<open>
  The daemon runs next to the container engine on a POSIX host, so \<open>path\<close> is Node's
  \<open>path.posix\<close>: the separator is \<open>/\<close> and a backslash is an ordinary character of a
  file name. \<open>normalize\<close> drops empty and \<open>.\<close> segments, lets a \<open>..\<close> segment cancel the
  segment before it, keeps the \<open>..\<close> segments that climb above the start of a relative
  path, drops them at the root of an absolute one, and keeps one trailing separator.
\<close>

fun normalizeSegments :: "bool \<Rightarrow> string list \<Rightarrow> string list \<Rightarrow> string list" where
  "normalizeSegments allowAboveRoot res [] = res"
| "normalizeSegments allowAboveRoot res (seg # segs) =
     (if seg = [] \<or> seg = ''.'' then normalizeSegments allowAboveRoot res segs
      else if seg = ''..'' then
        (if res \<noteq> [] \<and> last res \<noteq> ''..'' then normalizeSegments allowAboveRoot (butlast res) segs
         else if allowAboveRoot then normalizeSegments allowAboveRoot (res @ [''..'']) segs
         else normalizeSegments allowAboveRoot res segs)
      else normalizeSegments allowAboveRoot (res @ [seg]) segs)"

fun join_segments :: "string list \<Rightarrow> string" where
  "join_segments [] = []"
| "join_segments [seg] = seg"
| "join_segments (seg # segs) = seg @ ''/'' @ join_segments segs"

definition isAbsolute :: "string \<Rightarrow> bool" where
  "isAbsolute p = (case p of [] \<Rightarrow> False | c # _ \<Rightarrow> c = CHR ''/'')"

definition normalizeString :: "string \<Rightarrow> bool \<Rightarrow> string" where
  "normalizeString p allowAboveRoot =
     join_segments (normalizeSegments allowAboveRoot [] (split_char CHR ''/'' p))"

definition normalize :: "string \<Rightarrow> string" where
  \<comment> \<open>\<open>path.normalize\<close>\<close>
  "normalize p =
     (if p = [] then ''.''
      else let trailingSeparator = (last p = CHR ''/'');
               q = normalizeString p (\<not> isAbsolute p)
           in if q = [] then (if isAbsolute p then ''/'' else if trailingSeparator then ''./'' else ''.'')
              else (if isAbsolute p then ''/'' else []) @ q @ (if trailingSeparator then ''/'' else []))"

definition join :: "string \<Rightarrow> string \<Rightarrow> string" where
  \<comment> \<open>\<open>path.join(a, b)\<close>: the non-empty arguments, joined by one separator, normalized\<close>
  "join a b =
     (if a = [] \<and> b = [] then ''.''
      else normalize (if a = [] then b else if b = [] then a else a @ ''/'' @ b))"


definition dirname :: "string \<Rightarrow> string" where
  \<comment> \<open>\<open>path.dirname\<close>: the path up to the last separator that follows a name\<close>
  "dirname p =
     (if p = [] then ''.''
      else let r = dropWhile (\<lambda>c. c \<noteq> CHR ''/'') (dropWhile (\<lambda>c. c = CHR ''/'') (rev (tl p)))
           in if r = [] then (if isAbsolute p then ''/'' else ''.'')
              else if isAbsolute p \<and> length r = 1 then ''//''
              else take (length r) p)"

fun strip_leading_dotdots :: "string \<Rightarrow> string" where
  \<comment> \<open>\<open>.replace(/^(\.\.[\/\\])+/, '')\<close>: every leading \<open>../\<close> or \<open>..\\<close> group is removed\<close>
  "strip_leading_dotdots (c # d # e # r) =
     (if c = CHR ''.'' \<and> d = CHR ''.'' \<and> (e = CHR ''/'' \<or> e = CHR 0x5C)
      then strip_leading_dotdots r else c # d # e # r)"
| "strip_leading_dotdots s = s"


section \<open>Installation Orchestrator\<close>

text \<open>
  \<^verbatim>\<open>
  interface ServerConfig {
    dockerImage: string;
    variables: Array<{ ... }>;
    startupCommand: string;
    configFiles: Array<{ path: string; content: string; }>;
    install: { dockerImage: string; entrypoint: string; script: string; };
  }
  \<close>
\<close>

record configFile =
  path :: string
  content :: string



text \<open>
  What the installation does to the outside world is recorded as a list of effects, in
  program order. What the outside world answers is an input: the record \<open>install_env\<close>
  holds the outcome of every file-system and engine call (\<open>None\<close>: the call succeeds,
  \<open>Some e\<close>: it throws or rejects with \<open>e\<close>).
\<close>

datatype effect =
    ConsoleLog string
  | ConsoleError string error
  | PullImage string
  | Mkdir string
  | WriteFile string string
  | CreateContainer string string
  | AttachContainer string
  | StartContainer string
  | WaitContainer string
  | RemoveContainer string bool

datatype remove_outcome =
    Removed
  | RemoveRejected error  \<comment> \<open>the promise returned by \<open>container.remove\<close> rejects\<close>
  | RemoveThrew error     \<comment> \<open>the call itself throws\<close>

record install_env =
  workingDirectory :: string
  volumesDirectory :: string
  pull_result :: "string \<Rightarrow> error option"
  mkdir_result :: "string \<Rightarrow> error option"
  writeFile_result :: "string \<Rightarrow> error option"
  createContainer_result :: "error option"
  attach_result :: "error option"
  start_result :: "error option"
  wait_result :: "error + int"
  install_output :: string
  getContainer_result :: "error option"
  remove_result :: remove_outcome

type_synonym 'a outcome = "(error + 'a) \<times> effect list"

definition and_then :: "'a outcome \<Rightarrow> ('a \<Rightarrow> 'b outcome) \<Rightarrow> 'b outcome" where
  \<comment> \<open>sequencing inside a \<open>try\<close> block: an exception skips the rest\<close>
  "and_then m f =
     (case m of
        (Inl e, t) \<Rightarrow> (Inl e, t)
      | (Inr x, t) \<Rightarrow> (case f x of (r, t') \<Rightarrow> (r, t @ t')))"

definition call :: "effect list \<Rightarrow> error option \<Rightarrow> unit outcome" where
  \<comment> \<open>an awaited call: its effects, and the exception if it fails\<close>
  "call effs res = ((case res of None \<Rightarrow> Inr () | Some e \<Rightarrow> Inl e), effs)"






text \<open>
  \<^verbatim>\<open>
  async function writeConfigFiles(volumePath, configFiles): Promise<void> {
    for (const file of configFiles) {
      // Sanitize path to prevent directory traversal
      const safePath = path.normalize(file.path).replace(/^(\.\.[\/\\])+/, '');
      const fullPath = path.join(volumePath, safePath);
      // Ensure parent directory exists
      await fs.mkdir(path.dirname(fullPath), { recursive: true });
      // Write file
      try {
        await fs.writeFile(fullPath, file.content, 'utf8');
        console.log(`Created config file: ${safePath}`);
      } catch (error) {
        console.error(`Failed to write config file ${safePath}:`, error);
        throw new Error(`Failed to write config file ${safePath}`);
      }
    }
  }
  \<close>
\<close>

definition safePath :: "configFile \<Rightarrow> string" where
  "safePath file = strip_leading_dotdots (normalize (path file))"

definition fullPath :: "string \<Rightarrow> configFile \<Rightarrow> string" where
  "fullPath volumePath file = join volumePath (safePath file)"

fun writeConfigFiles :: "install_env \<Rightarrow> string \<Rightarrow> configFile list \<Rightarrow> unit outcome" where
  "writeConfigFiles env volumePath [] = (Inr (), [])"
| "writeConfigFiles env volumePath (file # files) =
     and_then (call [Mkdir (dirname (fullPath volumePath file))]
                 (mkdir_result env (dirname (fullPath volumePath file))))
       (\<lambda>_. case writeFile_result env (fullPath volumePath file) of
          Some e \<Rightarrow>
            (Inl (Error (''Failed to write config file '' @ safePath file)),
             [WriteFile (fullPath volumePath file) (content file),
              ConsoleError (''Failed to write config file '' @ safePath file @ '':'') e])
        | None \<Rightarrow>
            and_then
              (Inr (), [WriteFile (fullPath volumePath file) (content file),
                        ConsoleLog (''Created config file: '' @ safePath file)])
              (\<lambda>_. writeConfigFiles env volumePath files))"











section \<open>Resource Monitor\<close>

text \<open>
  A JavaScript number is an IEEE 754 binary64 value. \<open>Fin r\<close> is the finite value \<open>r\<close>
  (the sign of a zero is not kept: no comparison of the program tells the two zeros
  apart); \<open>toDouble\<close> rounds an exact result to the nearest binary64 value, ties to the
  even significand, with gradual underflow below \<open>2^-1022\<close> and overflow to an infinity
  from \<open>2^1024\<close> on.
\<close>

datatype number = NaN | PInf | NInf | Fin rat

function log2floor :: "int \<Rightarrow> int" where
  "log2floor n = (if n < 2 then 0 else 1 + log2floor (n div 2))"
  by pat_completeness auto
termination
  by (relation "measure nat") auto

declare log2floor.simps [simp del]

definition pow2 :: "int \<Rightarrow> rat" where
  "pow2 k = (if 0 \<le> k then 2 ^ nat k else 1 / 2 ^ nat (- k))"

definition exponent_of :: "rat \<Rightarrow> int" where
  \<comment> \<open>for \<open>a > 0\<close>: the \<open>e\<close> with \<open>2^e \<le> a < 2^(e+1)\<close>\<close>
  "exponent_of a =
     (let k = (if 1 \<le> a then log2floor \<lfloor>a\<rfloor> else - log2floor \<lfloor>1 / a\<rfloor>)
      in if pow2 k \<le> a then k else k - 1)"

definition round_half_even :: "rat \<Rightarrow> int" where
  "round_half_even m =
     (let f = \<lfloor>m\<rfloor>; r = m - of_int f
      in if r < 1 / 2 then f else if 1 / 2 < r then f + 1 else if even f then f else f + 1)"

definition toDouble :: "rat \<Rightarrow> number" where
  "toDouble r =
     (if r = 0 then Fin 0
      else let a = \<bar>r\<bar>;
               q = pow2 (max (exponent_of a) (- 1022) - 52);
               v = of_int (round_half_even (a / q)) * q
           in if pow2 1024 \<le> v then (if 0 < r then PInf else NInf)
              else Fin (if 0 < r then v else - v))"

fun fsub :: "number \<Rightarrow> number \<Rightarrow> number" where
  "fsub (Fin a) (Fin b) = toDouble (a - b)"
| "fsub NaN y = NaN"
| "fsub x NaN = NaN"
| "fsub PInf PInf = NaN"
| "fsub NInf NInf = NaN"
| "fsub PInf y = PInf"
| "fsub NInf y = NInf"
| "fsub x PInf = NInf"
| "fsub x NInf = PInf"

fun fmul :: "number \<Rightarrow> number \<Rightarrow> number" where
  "fmul (Fin a) (Fin b) = toDouble (a * b)"
| "fmul NaN y = NaN"
| "fmul x NaN = NaN"
| "fmul PInf PInf = PInf"
| "fmul NInf NInf = PInf"
| "fmul PInf NInf = NInf"
| "fmul NInf PInf = NInf"
| "fmul PInf (Fin b) = (if b = 0 then NaN else if 0 < b then PInf else NInf)"
| "fmul NInf (Fin b) = (if b = 0 then NaN else if 0 < b then NInf else PInf)"
| "fmul (Fin a) PInf = (if a = 0 then NaN else if 0 < a then PInf else NInf)"
| "fmul (Fin a) NInf = (if a = 0 then NaN else if 0 < a then NInf else PInf)"

fun fdiv :: "number \<Rightarrow> number \<Rightarrow> number" where
  \<comment> \<open>a zero divisor is taken as \<open>+0\<close>; the program divides by a positive number only\<close>
  "fdiv (Fin a) (Fin b) =
     (if b = 0 then (if a = 0 then NaN else if 0 < a then PInf else NInf)
      else toDouble (a / b))"
| "fdiv NaN y = NaN"
| "fdiv x NaN = NaN"
| "fdiv (Fin a) PInf = Fin 0"
| "fdiv (Fin a) NInf = Fin 0"
| "fdiv PInf (Fin b) = (if 0 \<le> b then PInf else NInf)"
| "fdiv NInf (Fin b) = (if 0 \<le> b then NInf else PInf)"
| "fdiv x y = NaN"

fun fgt :: "number \<Rightarrow> number \<Rightarrow> bool" where
  \<comment> \<open>\<open>x > y\<close>: false as soon as one side is NaN\<close>
  "fgt (Fin a) (Fin b) = (b < a)"
| "fgt NaN y = False"
| "fgt x NaN = False"
| "fgt PInf PInf = False"
| "fgt PInf y = True"
| "fgt x NInf = (x \<noteq> NInf)"
| "fgt x y = False"

text \<open>
  \<^verbatim>\<open>
  interface ContainerStatsResponse {
    memory_stats: { usage: number; limit: number; };
    cpu_stats: { cpu_usage: { total_usage: number; }; system_cpu_usage: number;
                 online_cpus: number; };
    precpu_stats: { cpu_usage: { total_usage: number; }; system_cpu_usage: number; };
    networks?: { eth0?: { rx_bytes: number; tx_bytes: number; }; };
  }

  private calculateCPUPercent(stats: ContainerStatsResponse): number {
    const cpuDelta = stats.cpu_stats.cpu_usage.total_usage - stats.precpu_stats.cpu_usage.total_usage;
    const systemDelta = stats.cpu_stats.system_cpu_usage - stats.precpu_stats.system_cpu_usage;
    const cpuCount = stats.cpu_stats.online_cpus;
    return (systemDelta > 0 && cpuDelta > 0)
      ? (cpuDelta / systemDelta) * cpuCount * 100
      : 0;
  }
  \<close>
  The nested objects are flattened into one record; a field the engine leaves out
  reads as \<open>undefined\<close> and enters the arithmetic as \<open>NaN\<close>.
\<close>

record containerStatsResponse =
  memory_usage :: number
  memory_limit :: number
  cpu_total_usage :: number
  cpu_system_cpu_usage :: number
  cpu_online_cpus :: number
  precpu_total_usage :: number
  precpu_system_cpu_usage :: number

definition cpuDelta :: "containerStatsResponse \<Rightarrow> number" where
  "cpuDelta stats = fsub (cpu_total_usage stats) (precpu_total_usage stats)"

definition systemDelta :: "containerStatsResponse \<Rightarrow> number" where
  "systemDelta stats = fsub (cpu_system_cpu_usage stats) (precpu_system_cpu_usage stats)"

definition calculateCPUPercent :: "containerStatsResponse \<Rightarrow> number" where
  "calculateCPUPercent stats =
     (if fgt (systemDelta stats) (Fin 0) \<and> fgt (cpuDelta stats) (Fin 0)
      then fmul (fmul (fdiv (cpuDelta stats) (systemDelta stats)) (cpu_online_cpus stats)) (Fin 100)
      else Fin 0)"


section \<open>Session Manager\<close>

text \<open>
  \<^verbatim>\<open>
  enum LogType { INFO = 'info', SUCCESS = 'success', ERROR = 'error',
                 WARNING = 'warning', DAEMON = 'daemon' }

  interface ConsoleSession {
    socket: WebSocket; exec?: Docker.Exec; stream?: Duplex;
    serverId: string; internalId: string; userId: string;
    container: Container; authenticated: boolean;
    logStream?: NodeJS.ReadableStream;
  }
  \<close>
  A socket is named by a number and a container by its engine identifier. The
  interactive shell of \<open>send_command\<close> (\<open>exec\<close>, \<open>stream\<close>) is not part of this model;
  \<open>logStream\<close> records whether the session holds a log subscription.
\<close>

datatype LogType = INFO | SUCCESS | ERROR | WARNING | DAEMON

datatype colour = Hex string | Green | Red | Yellow

record session =
  socket :: nat
  serverId :: string
  internalId :: string
  userId :: string
  container :: string
  authenticated :: bool
  logStream :: bool

text \<open>The outbound events of the connection, and what a socket is asked to do.\<close>

datatype event =
    auth_success "string list" string         \<comment> \<open>\<open>logs\<close>, \<open>state\<close>\<close>
  | console_output string                     \<comment> \<open>\<open>message\<close>\<close>
  | power_status string string string string  \<comment> \<open>\<open>status\<close>, \<open>action\<close>, \<open>state\<close>, \<open>error\<close>\<close>
  | error_event string                        \<comment> \<open>\<open>message\<close>\<close>

datatype delivery = Send event | CloseSocket nat string

text \<open>
  The manager's state: the session registry (a \<open>Map\<close>, in insertion order), the log
  buffers per server, and the two traces of what it has done: everything handed to a
  socket, and everything written to the console.
\<close>

record manager =
  sessions :: "(nat \<times> session) list"
  logBuffers :: "string \<rightharpoonup> string list"
  outbox :: "(nat \<times> delivery) list"
  console :: "effect list"

text \<open>
  \<^verbatim>\<open>
  interface ValidateResponse {
    validated: boolean;
    server: { id: string; name: string; internalId: string; node: { ... } }
  }
  \<close>
\<close>

record validateResponse =
  validated :: bool
  server_id :: string
  server_internalId :: string

datatype logs_outcome =
    LogsAttached                \<comment> \<open>the callback receives a stream\<close>
  | LogsFailed "string option"  \<comment> \<open>the callback receives an error (its message) or no stream\<close>
  | LogsThrew string            \<comment> \<open>the call throws an \<open>Error\<close> with this message\<close>

text \<open>
  The collaborators of the session manager are inputs: \<open>paint\<close> is the colouring of
  \<open>chalk\<close>, \<open>utf8\<close> is \<open>Buffer.toString('utf8')\<close>, and the other fields are the outcomes of
  the control plane's validation call (\<open>None\<close>: the call fails), of the database query and
  of the engine calls on a container.
\<close>

record console_env =
  paint :: "colour \<Rightarrow> string \<Rightarrow> string"
  utf8 :: "8 word list \<Rightarrow> string"
  validate_result :: "string \<Rightarrow> string \<Rightarrow> validateResponse option"
  db_get_result :: "string \<Rightarrow> error + string option"
  inspect_result :: "string \<Rightarrow> error + (string \<times> string)"
  logs_result :: "string \<Rightarrow> logs_outcome"
  start_call :: "string \<Rightarrow> error option"
  stop_call :: "string \<Rightarrow> error option"
  restart_call :: "string \<Rightarrow> error option"

definition MAX_LOGS :: nat where
  "MAX_LOGS = 100"

definition formatLogMessage :: "console_env \<Rightarrow> LogType \<Rightarrow> string \<Rightarrow> string" where
  "formatLogMessage env type message =
     (case type of
        INFO \<Rightarrow> paint env (Hex ''90a2b9'') message
      | SUCCESS \<Rightarrow> paint env Green message
      | ERROR \<Rightarrow> paint env Red message
      | WARNING \<Rightarrow> paint env Yellow message
      | DAEMON \<Rightarrow> paint env Yellow ''[Krypton Daemon]'' @ '' '' @ message)"

text \<open>
  \<^verbatim>\<open>
  private addLogToBuffer(internalId: string, log: string) {
    if (!this.logBuffers.has(internalId)) { this.logBuffers.set(internalId, []); }
    const buffer = this.logBuffers.get(internalId)!;
    buffer.push(log);
    if (buffer.length > this.MAX_LOGS) { buffer.shift(); }
  }
  \<close>
\<close>

definition addLogToBuffer :: "manager \<Rightarrow> string \<Rightarrow> string \<Rightarrow> manager" where
  "addLogToBuffer m iid line =
     (let buffer = (case logBuffers m iid of None \<Rightarrow> [] | Some b \<Rightarrow> b) @ [line]
      in m\<lparr>logBuffers := (logBuffers m)(iid \<mapsto> (if length buffer > MAX_LOGS then tl buffer else buffer))\<rparr>)"

text \<open>
  \<^verbatim>\<open>
  private broadcastToServer(internalId: string, log: string, type: LogType = LogType.INFO) {
    const formattedLog = this.formatLogMessage(type, log);
    this.addLogToBuffer(internalId, formattedLog);
    for (const [socket, session] of this.sessions.entries()) {
      if (session.internalId === internalId && session.authenticated) {
        try {
          socket.send(JSON.stringify({ event: 'console_output', data: { message: formattedLog } }));
        } catch (error) { console.error('Failed to broadcast log:', error); }
      }
    }
  }
  \<close>
  A socket of the registry has completed its handshake, and \<open>send\<close> on such a socket
  does not throw: the call is recorded in the outbox.
\<close>

definition send :: "manager \<Rightarrow> nat \<Rightarrow> event \<Rightarrow> manager" where
  "send m sock ev = m\<lparr>outbox := outbox m @ [(sock, Send ev)]\<rparr>"

definition broadcastToServer :: "console_env \<Rightarrow> manager \<Rightarrow> string \<Rightarrow> string \<Rightarrow> LogType \<Rightarrow> manager" where
  "broadcastToServer env m iid line type =
     (let formattedLog = formatLogMessage env type line;
          m1 = addLogToBuffer m iid formattedLog
      in foldl (\<lambda>acc (sock, s).
                  if internalId s = iid \<and> authenticated s
                  then send acc sock (console_output formattedLog) else acc)
           m1 (sessions m1))"


definition update_session :: "manager \<Rightarrow> nat \<Rightarrow> (session \<Rightarrow> session) \<Rightarrow> manager" where
  \<comment> \<open>a session object is shared with the registry: a field assignment shows there\<close>
  "update_session m sock f =
     m\<lparr>sessions := map (\<lambda>(k, s). if k = sock then (k, f s) else (k, s)) (sessions m)\<rparr>"

definition sessions_set :: "manager \<Rightarrow> nat \<Rightarrow> session \<Rightarrow> manager" where
  \<comment> \<open>\<open>this.sessions.set(socket, session)\<close>\<close>
  "sessions_set m sock s =
     (if sock \<in> fst ` set (sessions m)
      then m\<lparr>sessions := map (\<lambda>(k, old). if k = sock then (k, s) else (k, old)) (sessions m)\<rparr>
      else m\<lparr>sessions := sessions m @ [(sock, s)]\<rparr>)"

text \<open>
  \<^verbatim>\<open>
  private async attachLogs(session: ConsoleSession) {
    try {
      if (session.logStream) { session.logStream.destroy(); }
      const containerRef = new Docker().getContainer(session.container.id);
      containerRef.logs({ follow: true, stdout: true, stderr: true, tail: 0 }, (err, logStream) => {
        if (err || !logStream) {
          this.broadcastToServer(session.internalId,
            `Log stream error: ${err?.message || 'No stream available'}`, LogType.ERROR);
          return;
        }
        session.logStream = logStream;
        logStream.on('data', (chunk: Buffer) => { ... });
        logStream.on('error', ...);
      });
    } catch (error) {
      this.broadcastToServer(session.internalId, `Failed to attach logs: ${error}`, LogType.ERROR);
    }
  }
  \<close>
\<close>

definition attachLogs :: "console_env \<Rightarrow> manager \<Rightarrow> session \<Rightarrow> manager" where
  "attachLogs env m s =
     (case logs_result env (container s) of
        LogsAttached \<Rightarrow> update_session m (socket s) (\<lambda>x. x\<lparr>logStream := True\<rparr>)
      | LogsFailed msg \<Rightarrow>
          broadcastToServer env m (internalId s)
            (''Log stream error: '' @
               (case msg of None \<Rightarrow> ''No stream available''
                | Some t \<Rightarrow> if t = [] then ''No stream available'' else t))
            ERROR
      | LogsThrew t \<Rightarrow>
          broadcastToServer env m (internalId s) (''Failed to attach logs: Error: '' @ t) ERROR)"

subsection \<open>Log Frame Decoder\<close>

text \<open>
  \<^verbatim>\<open>
  logStream.on('data', (chunk: Buffer) => {
    try {
      const headerLength = 8;
      const logType = chunk.readUInt8(0);
      const contentLength = chunk.readUInt32BE(4);
      const content = chunk.slice(headerLength, headerLength + contentLength).toString('utf8').trim();
      if (content) {
        const type = logType === 1 ? LogType.INFO : LogType.ERROR;
        this.broadcastToServer(session.internalId, content, type);
      }
    } catch (parseError) {
      console.error('Failed to parse log chunk:', parseError);
    }
  });
  \<close>
  \<open>readUInt8(0)\<close> throws a \<open>RangeError\<close> on an empty chunk and \<open>readUInt32BE(4)\<close> on a chunk
  of fewer than eight bytes; \<open>slice\<close> stops at the end of the chunk.
\<close>

definition trim :: "string \<Rightarrow> string" where
  \<comment> \<open>\<open>String.prototype.trim\<close>: white space is removed at both ends\<close>
  "trim s = rev (dropWhile isWhiteSpace (rev (dropWhile isWhiteSpace s)))"

definition readUInt32BE :: "8 word list \<Rightarrow> nat \<Rightarrow> nat" where
  \<comment> \<open>for \<open>offset + 4 \<le> length chunk\<close>\<close>
  "readUInt32BE chunk offset =
     unat (chunk ! offset) * 2 ^ 24 + unat (chunk ! (offset + 1)) * 2 ^ 16
     + unat (chunk ! (offset + 2)) * 2 ^ 8 + unat (chunk ! (offset + 3))"

datatype frame = ParseError | NoLine | Line LogType string

definition decodeChunk :: "console_env \<Rightarrow> 8 word list \<Rightarrow> frame" where
  "decodeChunk env chunk =
     (if length chunk < 1 then ParseError
      else if length chunk < 8 then ParseError
      else let headerLength = 8;
               logType = chunk ! 0;
               contentLength = readUInt32BE chunk 4;
               content = trim (utf8 env (take contentLength (drop headerLength chunk)))
           in if content \<noteq> [] then Line (if logType = 1 then INFO else ERROR) content
              else NoLine)"

definition onLogData :: "console_env \<Rightarrow> manager \<Rightarrow> session \<Rightarrow> 8 word list \<Rightarrow> manager" where
  "onLogData env m s chunk =
     (case decodeChunk env chunk of
        Line type text \<Rightarrow> broadcastToServer env m (internalId s) text type
      | NoLine \<Rightarrow> m
      | ParseError \<Rightarrow>
          m\<lparr>console := console m @ [ConsoleError ''Failed to parse log chunk:'' (Error ''RangeError'')]\<rparr>)"

subsection \<open>Session setup\<close>

text \<open>
  \<^verbatim>\<open>
  private async setupContainerSession(socket, internalId: string, validation: ValidateResponse) {
    try {
      const server = await this.appState.db.get('SELECT docker_id FROM servers WHERE id = ?', [internalId]);
      if (!server?.docker_id) { throw new Error('Server not found or no container assigned'); }
      const container = this.appState.docker.getContainer(server.docker_id);
      const session: ConsoleSession = {
        socket, serverId: validation.server.id, internalId: validation.server.internalId,
        userId: validation.server.id, container, authenticated: true
      };
      this.sessions.set(socket, session);
      const containerInfo = await container.inspect();
      socket.send(JSON.stringify({
        event: 'auth_success',
        data: { logs: [], state: containerInfo.State.Status }
      }));
      // Attach logs and start monitoring
      await this.attachLogs(session);
      await this.startResourceMonitoring(session);
      return session;
    } catch (error) {
      console.error('Failed to set up session:', error);
      socket.close(1011, 'Failed to initialize session');
      return null;
    }
  }
  \<close>
  \<open>startResourceMonitoring\<close> only arms the sampling timer and registers its cancellation;
  timers are outside this model.
\<close>

definition setup_failed :: "manager \<Rightarrow> nat \<Rightarrow> error \<Rightarrow> manager \<times> session option" where
  \<comment> \<open>the \<open>catch\<close> block of \<open>setupContainerSession\<close>\<close>
  "setup_failed m sock e =
     (m\<lparr>console := console m @ [ConsoleError ''Failed to set up session:'' e],
        outbox := outbox m @ [(sock, CloseSocket 1011 ''Failed to initialize session'')]\<rparr>,
      None)"

definition setupContainerSession ::
  "console_env \<Rightarrow> manager \<Rightarrow> nat \<Rightarrow> string \<Rightarrow> validateResponse \<Rightarrow> manager \<times> session option" where
  "setupContainerSession env m sock iid validation =
     (case db_get_result env iid of
        Inl e \<Rightarrow> setup_failed m sock e
      | Inr row \<Rightarrow>
          (case row of
             None \<Rightarrow> setup_failed m sock (Error ''Server not found or no container assigned'')
           | Some docker_id \<Rightarrow>
               if docker_id = []
               then setup_failed m sock (Error ''Server not found or no container assigned'')
               else
                 let s = \<lparr>socket = sock, serverId = server_id validation,
                          internalId = server_internalId validation,
                          userId = server_id validation, container = docker_id,
                          authenticated = True, logStream = False\<rparr>;
                     m1 = sessions_set m sock s
                 in (case inspect_result env docker_id of
                       Inl e \<Rightarrow> setup_failed m1 sock e
                     | Inr (status, err) \<Rightarrow>
                         (attachLogs env (send m1 sock (auth_success [] status)) s, Some s))))"

text \<open>
  \<^verbatim>\<open>
  this.appState.wsServer.on('connection', async (socket: WebSocket, request: any) => {
    const { query } = parseUrl(request.url!, true);
    const internalId = query.server as string;
    const token = query.token as string;
    if (!internalId || !token) { socket.close(1008, 'Missing server ID or token'); return; }
    const validation = await this.validateToken(internalId, token);
    if (!validation?.validated) { socket.close(1008, 'Invalid token or access denied'); return; }
    const session = await this.setupContainerSession(socket, internalId, validation);
    if (!session) return;
    socket.on('message', ...);
    socket.on('close', ...);
  });
  \<close>
\<close>

definition onConnection ::
  "console_env \<Rightarrow> manager \<Rightarrow> nat \<Rightarrow> string option \<Rightarrow> string option \<Rightarrow> manager \<times> session option" where
  "onConnection env m sock server token =
     (case (server, token) of
        (Some iid, Some tok) \<Rightarrow>
          if iid = [] \<or> tok = []
          then (m\<lparr>outbox := outbox m @ [(sock, CloseSocket 1008 ''Missing server ID or token'')]\<rparr>, None)
          else (case validate_result env iid tok of
                  None \<Rightarrow>
                    (m\<lparr>outbox := outbox m @ [(sock, CloseSocket 1008 ''Invalid token or access denied'')]\<rparr>, None)
                | Some validation \<Rightarrow>
                    if \<not> validated validation
                    then (m\<lparr>outbox := outbox m @ [(sock, CloseSocket 1008 ''Invalid token or access denied'')]\<rparr>, None)
                    else setupContainerSession env m sock iid validation)
      | _ \<Rightarrow> (m\<lparr>outbox := outbox m @ [(sock, CloseSocket 1008 ''Missing server ID or token'')]\<rparr>, None))"

subsection \<open>Power actions\<close>

text \<open>
  \<^verbatim>\<open>
  private async handlePowerAction(session: ConsoleSession, action: string) {
    try {
      this.broadcastToServer(session.internalId, `Performing a ${action} action on server...`, LogType.DAEMON);
      switch (action) {
        case 'start':   await session.container.start(); await this.attachLogs(session); break;
        case 'stop':    await session.container.stop(); break;
        case 'restart': await session.container.restart(); await this.attachLogs(session); break;
      }
      const containerInfo = await session.container.inspect();
      const state = containerInfo.State.Status;
      const error = containerInfo.State.Error || '';
      session.socket.send(JSON.stringify({
        event: 'power_status',
        data: {
          status: state === 'running'
            ? `${chalk.yellow('[Krypton Daemon]')} The power state was successfully changed!`
            : `${chalk.yellow('[Krypton Daemon]')} Failed to change power state. If you are booting the server, this means the initial startup command failed/exited or is not valid.`,
          action, state, error
        }
      }));
    } catch (error) {
      const errorMsg = error instanceof Error ? error.message : 'Unknown error';
      this.broadcastToServer(session.internalId, `Failed to ${action} server: ${errorMsg}`, LogType.ERROR);
      console.error(`Server ${action} failed:`, error);
      session.socket.send(JSON.stringify({ event: 'error', data: { message: errorMsg } }));
    }
  }
  \<close>
\<close>

definition power_failed :: "console_env \<Rightarrow> manager \<Rightarrow> session \<Rightarrow> string \<Rightarrow> error \<Rightarrow> manager" where
  \<comment> \<open>the \<open>catch\<close> block of \<open>handlePowerAction\<close>\<close>
  "power_failed env m s action e =
     (case e of Error errorMsg \<Rightarrow>
        (let m1 = broadcastToServer env m (internalId s)
                    (''Failed to '' @ action @ '' server: '' @ errorMsg) ERROR;
             m2 = m1\<lparr>console := console m1 @ [ConsoleError (''Server '' @ action @ '' failed:'') e]\<rparr>
         in send m2 (socket s) (error_event errorMsg)))"

definition engine_action :: "console_env \<Rightarrow> manager \<Rightarrow> session \<Rightarrow> string \<Rightarrow> error + manager" where
  \<comment> \<open>the \<open>switch\<close> of \<open>handlePowerAction\<close>\<close>
  "engine_action env m s action =
     (if action = ''start'' then
        (case start_call env (container s) of
           Some e \<Rightarrow> Inl e | None \<Rightarrow> Inr (attachLogs env m s))
      else if action = ''stop'' then
        (case stop_call env (container s) of
           Some e \<Rightarrow> Inl e | None \<Rightarrow> Inr m)
      else if action = ''restart'' then
        (case restart_call env (container s) of
           Some e \<Rightarrow> Inl e | None \<Rightarrow> Inr (attachLogs env m s))
      else Inr m)"

definition handlePowerAction :: "console_env \<Rightarrow> manager \<Rightarrow> session \<Rightarrow> string \<Rightarrow> manager" where
  "handlePowerAction env m s action =
     (let m1 = broadcastToServer env m (internalId s)
                 (''Performing a '' @ action @ '' action on server...'') DAEMON
      in case engine_action env m1 s action of
           Inl e \<Rightarrow> power_failed env m1 s action e
         | Inr m2 \<Rightarrow>
             (case inspect_result env (container s) of
                Inl e \<Rightarrow> power_failed env m2 s action e
              | Inr (state, err) \<Rightarrow>
                  send m2 (socket s)
                    (power_status
                       (if state = ''running''
                        then paint env Yellow ''[Krypton Daemon]'' @ '' The power state was successfully changed!''
                        else paint env Yellow ''[Krypton Daemon]'' @ '' Failed to change power state. If you are booting the server, this means the initial startup command failed/exited or is not valid.'')
                       action state err)))"


section \<open>Example worlds\<close>

text \<open>
  Concrete inputs on which the properties below are run: a console world in which every
  call succeeds, colours are switched off and the log payload is plain ASCII; a manager
  with no session yet; one attached session; and a host on which every step of an
  installation succeeds.
\<close>

definition example_console :: console_env where
  "example_console =
     \<lparr>paint = (\<lambda>c t. t),
      utf8 = map (\<lambda>b. char_of (unat b)),
      validate_result = (\<lambda>iid tok. if tok = ''secret''
         then Some \<lparr>validated = True, server_id = ''42'', server_internalId = iid\<rparr> else None),
      db_get_result = (\<lambda>iid. Inr (Some ''c0ffee'')),
      inspect_result = (\<lambda>c. Inr (''running'', [])),
      logs_result = (\<lambda>c. LogsAttached),
      start_call = (\<lambda>c. None),
      stop_call = (\<lambda>c. None),
      restart_call = (\<lambda>c. None)\<rparr>"

definition empty_manager :: manager where
  "empty_manager = \<lparr>sessions = [], logBuffers = Map.empty, outbox = [], console = []\<rparr>"

definition example_session :: session where
  "example_session =
     \<lparr>socket = 7, serverId = ''42'', internalId = ''s1'', userId = ''42'',
      container = ''c0ffee'', authenticated = True, logStream = True\<rparr>"

definition example_host :: install_env where
  "example_host =
     \<lparr>workingDirectory = ''/opt/krypton'', volumesDirectory = ''/srv/volumes'',
      pull_result = (\<lambda>i. None), mkdir_result = (\<lambda>p. None), writeFile_result = (\<lambda>p. None),
      createContainer_result = None, attach_result = None, start_result = None,
      wait_result = Inr 0, install_output = ''done'', getContainer_result = None,
      remove_result = Removed\<rparr>"


text \<open>
  Two variants: an engine that answers the \<open>stop\<close> of a stopped container with a
  rejection, and a host on which the removal of the install container is rejected.
\<close>

definition stopped_console :: console_env where
  "stopped_console =
     example_console
       \<lparr>stop_call := (\<lambda>c. Some (Error ''(HTTP code 304) container already stopped - '')),
        inspect_result := (\<lambda>c. Inr (''exited'', []))\<rparr>"



section \<open>Properties of the Variable Processor\<close>

subsection \<open>Validation rules\<close>

lemma startsWith_nullable [simp]: "\<not> startsWith ''nullable'' ''max:''"
  by (simp add: startsWith_def)

lemma startsWith_string [simp]: "\<not> startsWith ''string'' ''max:''"
  by (simp add: startsWith_def)

text \<open>
  A value that is not empty passes exactly when it is within the bound of every
  \<open>max\<close> rule of the list; so does any value when the list has no \<open>nullable\<close> rule.
\<close>

lemma validateRules_nonempty:
  "val \<noteq> [] \<Longrightarrow>
   validateRules val rs =
     (\<forall>r \<in> set rs. \<forall>M. startsWith r ''max:'' \<and> parseInt10 (drop 4 r) = Some M \<longrightarrow> int (length val) \<le> M)"
  by (induction rs) (auto split: option.splits)

lemma validateRules_no_nullable:
  "''nullable'' \<notin> set rs \<Longrightarrow>
   validateRules val rs =
     (\<forall>r \<in> set rs. \<forall>M. startsWith r ''max:'' \<and> parseInt10 (drop 4 r) = Some M \<longrightarrow> int (length val) \<le> M)"
  by (induction rs) (auto split: option.splits)

lemma validateRules_accepts:
  "(\<forall>r \<in> set rs. \<forall>M. startsWith r ''max:'' \<and> parseInt10 (drop 4 r) = Some M \<longrightarrow> int (length val) \<le> M)
   \<Longrightarrow> validateRules val rs"
  by (induction rs) (auto split: option.splits)

lemma validateRules_nullable_first:
  "(\<forall>r \<in> set pre. \<forall>M. startsWith r ''max:'' \<and> parseInt10 (drop 4 r) = Some M \<longrightarrow> 0 \<le> M)
   \<Longrightarrow> validateRules [] (pre @ ''nullable'' # post)"
  by (induction pre) (auto split: option.splits)

text \<open>
  Claim C4, as the code has it. Let the rule list contain \<open>max:N\<close>. A value longer than
  \<open>N\<close> is rejected (for a negative \<open>N\<close> the empty value is rejected too unless a
  \<open>nullable\<close> rule is in the list). A value of length at most \<open>N\<close> is accepted when it is
  also within the bound of every other \<open>max\<close> rule of the list: rules other than \<open>max\<close>
  never reject, but a second \<open>max\<close> rule with a smaller bound does. The empty value is
  accepted as soon as a \<open>nullable\<close> rule is reached before any \<open>max\<close> rule with a
  negative bound.
\<close>

theorem max_rule_validation:
  assumes "rule \<in> set (split_char CHR ''|'' rs)"
    and "startsWith rule ''max:''"
    and "parseInt10 (drop 4 rule) = Some N"
  shows "(N < int (length val) \<and> (0 \<le> N \<or> val \<noteq> [] \<or> ''nullable'' \<notin> set (split_char CHR ''|'' rs))
            \<longrightarrow> \<not> validateVariableValue val rs)
       \<and> (int (length val) \<le> N
            \<and> (\<forall>r \<in> set (split_char CHR ''|'' rs). \<forall>M.
                  startsWith r ''max:'' \<and> parseInt10 (drop 4 r) = Some M \<longrightarrow> int (length val) \<le> M)
            \<longrightarrow> validateVariableValue val rs)
       \<and> (val = [] \<and> split_char CHR ''|'' rs = pre @ ''nullable'' # post
            \<and> (\<forall>r \<in> set pre. \<forall>M.
                  startsWith r ''max:'' \<and> parseInt10 (drop 4 r) = Some M \<longrightarrow> 0 \<le> M)
            \<longrightarrow> validateVariableValue val rs)"
proof (intro conjI impI)
  assume a: "N < int (length val) \<and> (0 \<le> N \<or> val \<noteq> [] \<or> ''nullable'' \<notin> set (split_char CHR ''|'' rs))"
  then consider "val \<noteq> []" | "''nullable'' \<notin> set (split_char CHR ''|'' rs)"
    by fastforce
  then show "\<not> validateVariableValue val rs"
  proof cases
    case 1
    with a assms show ?thesis
      unfolding validateVariableValue_def by (auto simp: validateRules_nonempty)
  next
    case 2
    with a assms show ?thesis
      unfolding validateVariableValue_def by (auto simp: validateRules_no_nullable)
  qed
next
  assume "int (length val) \<le> N
            \<and> (\<forall>r \<in> set (split_char CHR ''|'' rs). \<forall>M.
                  startsWith r ''max:'' \<and> parseInt10 (drop 4 r) = Some M \<longrightarrow> int (length val) \<le> M)"
  then show "validateVariableValue val rs"
    unfolding validateVariableValue_def by (simp add: validateRules_accepts)
next
  assume "val = [] \<and> split_char CHR ''|'' rs = pre @ ''nullable'' # post
            \<and> (\<forall>r \<in> set pre. \<forall>M.
                  startsWith r ''max:'' \<and> parseInt10 (drop 4 r) = Some M \<longrightarrow> 0 \<le> M)"
  then show "validateVariableValue val rs"
    unfolding validateVariableValue_def by (simp add: validateRules_nullable_first)
qed

text \<open>
  The theorem at the rule strings \<open>string|max:3\<close> and \<open>nullable|max:3\<close>: \<open>abcd\<close> is
  rejected, \<open>abc\<close> and the empty value are accepted.
\<close>

theorem max_rule_validation_witness:
  "''max:3'' \<in> set (split_char CHR ''|'' ''string|max:3'')
   \<and> startsWith ''max:3'' ''max:''
   \<and> parseInt10 (drop 4 ''max:3'') = Some 3
   \<and> \<not> validateVariableValue ''abcd'' ''string|max:3''
   \<and> validateVariableValue ''abc'' ''string|max:3''
   \<and> validateVariableValue [] ''nullable|max:3''"
proof -
  have s1: "split_char CHR ''|'' ''string|max:3'' = [''string'', ''max:3'']"
    by code_simp
  have s2: "split_char CHR ''|'' ''nullable|max:3'' = [] @ ''nullable'' # [''max:3'']"
    by code_simp
  have a1: "''max:3'' \<in> set (split_char CHR ''|'' ''string|max:3'')"
    by (simp add: s1)
  have a2: "''max:3'' \<in> set (split_char CHR ''|'' ''nullable|max:3'')"
    by (simp add: s2)
  have b: "startsWith ''max:3'' ''max:''"
    by code_simp
  have c: "parseInt10 (drop 4 ''max:3'') = Some 3"
    by code_simp
  have r1: "\<not> validateVariableValue ''abcd'' ''string|max:3''"
    using max_rule_validation [OF a1 b c, of "''abcd''"] by simp
  have r2: "validateVariableValue ''abc'' ''string|max:3''"
    using max_rule_validation [OF a1 b c, of "''abc''"] c by (simp add: s1)
  have r3: "validateVariableValue [] ''nullable|max:3''"
    using max_rule_validation [OF a2 b c, of "[]" "[]" "[''max:3'']"] s2 by simp
  from a1 b c r1 r2 r3 show ?thesis by blast
qed

text \<open>
  Claim C4 as it is worded fails: with the rule string \<open>max:10|max:2\<close> the value \<open>abc\<close>
  is within the bound of \<open>max:10\<close>, and the other rule of the list rejects it.
\<close>

theorem max_rule_counterexample:
  "''max:10'' \<in> set (split_char CHR ''|'' ''max:10|max:2'')
   \<and> startsWith ''max:10'' ''max:''
   \<and> parseInt10 (drop 4 ''max:10'') = Some 10
   \<and> int (length ''abc'') \<le> 10
   \<and> \<not> validateVariableValue ''abc'' ''max:10|max:2''"
  by code_simp

subsection \<open>Substitution\<close>

text \<open>
  \<open>split_first\<close> finds the first occurrence of the pattern: the text splits around it, and
  the pattern does not occur earlier.
\<close>

lemma startsWith_prefix: "startsWith s p = prefix p s"
proof
  assume "startsWith s p"
  then have "take (length p) s = p" by (simp add: startsWith_def)
  moreover have "take (length p) s @ drop (length p) s = s" by simp
  ultimately have "s = p @ drop (length p) s" by simp
  then show "prefix p s" by (rule prefixI)
next
  assume "prefix p s"
  then obtain zs where "s = p @ zs" by (auto simp: prefix_def)
  then show "startsWith s p" by (simp add: startsWith_def)
qed


lemma split_first_None: "split_first p s = None \<Longrightarrow> \<not> sublist p s"
proof (induction s)
  case Nil
  then show ?case by (simp split: if_splits)
next
  case (Cons c cs)
  from Cons.prems have "\<not> startsWith (c # cs) p" "split_first p cs = None"
    by (auto split: if_splits option.splits)
  with Cons.IH show ?case
    by (simp add: sublist_Cons_right startsWith_prefix)
qed





























section \<open>Properties of the Resource Monitor\<close>

subsection \<open>Rounding to binary64\<close>

lemma pow2_powi: "pow2 k = 2 powi k"
  by (simp add: pow2_def power_int_def power_one_over)

lemma pow2_pos: "0 < pow2 k"
  by (simp add: pow2_powi)

lemma pow2_plus1: "pow2 (k + 1) = 2 * pow2 k"
  by (simp add: pow2_powi power_int_add)

lemma pow2_nat: "0 \<le> k \<Longrightarrow> pow2 k = 2 ^ nat k"
  by (simp add: pow2_def)

lemma pow2_neg: "0 \<le> k \<Longrightarrow> pow2 (- k) = 1 / 2 ^ nat k"
  by (cases "k = 0") (simp_all add: pow2_def)

lemma pow2_less: "i < j \<Longrightarrow> pow2 i < pow2 j"
  by (simp add: pow2_powi power_int_strict_increasing)

lemma pow2_le: "i \<le> j \<Longrightarrow> pow2 i \<le> pow2 j"
  by (simp add: pow2_powi power_int_increasing)

lemma pow2_unique:
  assumes "pow2 e \<le> a" "a < pow2 (e + 1)" "pow2 e' \<le> a" "a < pow2 (e' + 1)"
  shows "e = e'"
proof (rule ccontr)
  assume "e \<noteq> e'"
  then consider "e + 1 \<le> e'" | "e' + 1 \<le> e" by linarith
  then show False
  proof cases
    case 1
    then have "pow2 (e + 1) \<le> pow2 e'" by (rule pow2_le)
    with assms show False by linarith
  next
    case 2
    then have "pow2 (e' + 1) \<le> pow2 e" by (rule pow2_le)
    with assms show False by linarith
  qed
qed

text \<open>\<open>log2floor\<close> is the position of the leading bit; \<open>exponent_of\<close> is the binade.\<close>

lemma log2floor_bounds:
  "1 \<le> n \<Longrightarrow> 0 \<le> log2floor n \<and> 2 ^ nat (log2floor n) \<le> n \<and> n < 2 * 2 ^ nat (log2floor n)"
proof (induction n rule: log2floor.induct)
  case (1 n)
  show ?case
  proof (cases "n < 2")
    case True
    with "1.prems" have "n = 1" by simp
    then show ?thesis by (simp add: log2floor.simps [of 1])
  next
    case False
    then have h: "1 \<le> n div 2" by simp
    from "1.IH" [OF False h]
    have ih: "0 \<le> log2floor (n div 2)" "2 ^ nat (log2floor (n div 2)) \<le> n div 2"
      "n div 2 < 2 * 2 ^ nat (log2floor (n div 2))"
      by simp_all
    have eq: "log2floor n = 1 + log2floor (n div 2)"
      using False by (simp add: log2floor.simps [of n])
    have n: "nat (1 + log2floor (n div 2)) = Suc (nat (log2floor (n div 2)))"
      using ih(1) by simp
    from ih(2) have "2 * 2 ^ nat (log2floor (n div 2)) \<le> n" by linarith
    moreover from ih(3) have "n < 2 * (2 * 2 ^ nat (log2floor (n div 2)))" by linarith
    ultimately show ?thesis using ih(1) by (simp add: eq n)
  qed
qed


lemma exponent_of_bounds:
  assumes "0 < a"
  shows "pow2 (exponent_of a) \<le> a \<and> a < pow2 (exponent_of a + 1)"
proof (cases "1 \<le> a")
  case True
  let ?k = "log2floor \<lfloor>a\<rfloor>"
  from True have fl: "1 \<le> \<lfloor>a\<rfloor>" by simp
  from log2floor_bounds [OF fl]
  have k: "0 \<le> ?k" "2 ^ nat ?k \<le> \<lfloor>a\<rfloor>" "\<lfloor>a\<rfloor> < 2 * 2 ^ nat ?k"
    by simp_all
  from k(2) have "of_int (2 ^ nat ?k) \<le> (of_int \<lfloor>a\<rfloor> :: rat)"
    by (simp only: of_int_le_iff)
  also have "\<dots> \<le> a" by simp
  finally have lo: "pow2 ?k \<le> a" using k(1) by (simp add: pow2_nat)
  from k(3) have "\<lfloor>a\<rfloor> + 1 \<le> 2 * 2 ^ nat ?k" by simp
  then have "(of_int (\<lfloor>a\<rfloor> + 1) :: rat) \<le> of_int (2 * 2 ^ nat ?k)"
    by (simp only: of_int_le_iff)
  moreover have "a < of_int (\<lfloor>a\<rfloor> + 1)" using floor_correct [of a] by simp
  ultimately have "a < of_int (2 * 2 ^ nat ?k)" by (rule less_le_trans [rotated])
  then have hi: "a < pow2 (?k + 1)" using k(1) by (simp add: pow2_plus1 pow2_nat)
  from True lo have "exponent_of a = ?k" by (simp add: exponent_of_def)
  with lo hi show ?thesis by simp
next
  case False
  let ?x = "1 / a"
  let ?f = "log2floor \<lfloor>?x\<rfloor>"
  from False assms have x1: "1 < ?x" by simp
  then have fl: "1 \<le> \<lfloor>?x\<rfloor>" by simp
  from log2floor_bounds [OF fl]
  have f: "0 \<le> ?f" "2 ^ nat ?f \<le> \<lfloor>?x\<rfloor>" "\<lfloor>?x\<rfloor> < 2 * 2 ^ nat ?f"
    by simp_all
  from f(2) have "of_int (2 ^ nat ?f) \<le> (of_int \<lfloor>?x\<rfloor> :: rat)"
    by (simp only: of_int_le_iff)
  also have "\<dots> \<le> ?x" by simp
  finally have "(2 :: rat) ^ nat ?f \<le> 1 / a" by simp
  with assms have "a * 2 ^ nat ?f \<le> 1" by (simp add: field_simps)
  then have up: "a \<le> pow2 (- ?f)" using f(1) by (simp add: pow2_neg field_simps)
  from f(3) have "\<lfloor>?x\<rfloor> + 1 \<le> 2 * 2 ^ nat ?f" by simp
  then have "(of_int (\<lfloor>?x\<rfloor> + 1) :: rat) \<le> of_int (2 * 2 ^ nat ?f)"
    by (simp only: of_int_le_iff)
  moreover have "?x < of_int (\<lfloor>?x\<rfloor> + 1)" using floor_correct [of ?x] by simp
  ultimately have "?x < of_int (2 * 2 ^ nat ?f)" by (rule less_le_trans [rotated])
  then have "1 / a < 2 * 2 ^ nat ?f" by simp
  with assms have "1 < a * (2 * 2 ^ nat ?f)" by (simp add: field_simps)
  then have "1 / (2 * 2 ^ nat ?f) < a" by (simp add: field_simps)
  moreover have "pow2 (- ?f) = 2 * pow2 (- ?f - 1)"
    using pow2_plus1 [of "- ?f - 1"] by simp
  ultimately have dn: "pow2 (- ?f - 1) < a" using f(1) by (simp add: pow2_neg)
  show ?thesis
  proof (cases "pow2 (- ?f) \<le> a")
    case True
    with False have e: "exponent_of a = - ?f" by (simp add: exponent_of_def)
    from up pow2_less [of "- ?f" "- ?f + 1"] have "a < pow2 (- ?f + 1)" by simp
    with True e show ?thesis by simp
  next
    case False
    with \<open>\<not> 1 \<le> a\<close> have e: "exponent_of a = - ?f - 1" by (simp add: exponent_of_def)
    from False dn show ?thesis by (simp add: e)
  qed
qed

lemma exponent_of_eq:
  assumes "pow2 e \<le> a" and "a < pow2 (e + 1)"
  shows "exponent_of a = e"
proof -
  from assms(1) pow2_pos [of e] have "0 < a" by simp
  from exponent_of_bounds [OF this] assms show ?thesis
    by (metis pow2_unique)
qed

text \<open>
  A value within half a unit of an integer rounds to it. So the rounding of a number of
  the normal range is fixed by its binade \<open>e\<close> and the integer \<open>n\<close> nearest to its
  significand scaled by \<open>2^(52 - e)\<close>.
\<close>

lemma round_half_even_eq:
  assumes "\<bar>m - of_int n\<bar> < 1 / 2"
  shows "round_half_even m = n"
proof -
  from assms have b: "of_int n - 1 / 2 < m" "m < of_int n + 1 / 2" by linarith+
  show ?thesis
  proof (cases "of_int n \<le> m")
    case True
    with b have "\<lfloor>m\<rfloor> = n" by (intro floor_unique) simp_all
    with b show ?thesis by (simp add: round_half_even_def)
  next
    case False
    with b have f: "\<lfloor>m\<rfloor> = n - 1" by (intro floor_unique) simp_all
    from b have "1 / 2 < m - of_int (n - 1)" by simp
    with f show ?thesis by (simp add: round_half_even_def)
  qed
qed

lemma toDouble_normal:
  assumes "pow2 e \<le> r" and "r < pow2 (e + 1)" and "- 1022 \<le> e"
    and "\<bar>r / pow2 (e - 52) - of_int n\<bar> < 1 / 2"
    and "of_int n * pow2 (e - 52) < pow2 1024"
  shows "toDouble r = Fin (of_int n * pow2 (e - 52))"
proof -
  from assms(1) pow2_pos [of e] have pos: "0 < r" by simp
  have ex: "exponent_of \<bar>r\<bar> = e"
    using assms(1,2) pos by (simp add: exponent_of_eq)
  have mx: "max e (- 1022) = e" using assms(3) by simp
  have rd: "round_half_even (\<bar>r\<bar> / pow2 (e - 52)) = n"
    using assms(4) pos by (simp add: round_half_even_eq)
  show ?thesis
    using pos assms(5) unfolding toDouble_def Let_def ex mx rd by simp
qed

subsection \<open>CPU percent\<close>

text \<open>
  The three operations of \<open>(200 / 1000) * 4 * 100\<close>: the quotient is the binary64 value
  next to one fifth, the product by 4 is exact, and the product by 100 rounds to 80.
\<close>

lemma quotient_200_1000: "fdiv (Fin 200) (Fin 1000) = Fin (7205759403792794 / 2 ^ 55)"
  using toDouble_normal [of "- 3" "1 / 5" 7205759403792794] by (simp add: pow2_def)

lemma times_4: "fmul (Fin (7205759403792794 / 2 ^ 55)) (Fin 4) = Fin (7205759403792794 / 2 ^ 53)"
  using toDouble_normal [of "- 1" "7205759403792794 / 2 ^ 53" 7205759403792794] by (simp add: pow2_def)

lemma times_100: "fmul (Fin (7205759403792794 / 2 ^ 53)) (Fin 100) = Fin 80"
  using toDouble_normal [of 6 "720575940379279400 / 2 ^ 53" 5629499534213120] by (simp add: pow2_def)

lemma delta_200: "fsub (Fin 1200) (Fin 1000) = Fin 200"
  using toDouble_normal [of 7 200 "200 * 2 ^ 45"] by (simp add: pow2_def)

lemma delta_1000: "fsub (Fin 5000) (Fin 4000) = Fin 1000"
  using toDouble_normal [of 9 1000 "1000 * 2 ^ 43"] by (simp add: pow2_def)

text \<open>
  Claim C6. With a total-usage delta of 200, a system delta of 1000 and 4 online CPUs
  the computed percentage is the binary64 value 80 exactly; and it is 0 as soon as the
  system delta or the total-usage delta is not greater than zero (non-positive, or NaN
  when a reading is missing).
\<close>

theorem cpu_percent:
  "(cpuDelta stats = Fin 200 \<and> systemDelta stats = Fin 1000 \<and> cpu_online_cpus stats = Fin 4
      \<longrightarrow> calculateCPUPercent stats = Fin 80)
   \<and> (\<not> fgt (systemDelta stats) (Fin 0) \<or> \<not> fgt (cpuDelta stats) (Fin 0)
      \<longrightarrow> calculateCPUPercent stats = Fin 0)"
proof (intro conjI impI)
  assume h: "cpuDelta stats = Fin 200 \<and> systemDelta stats = Fin 1000 \<and> cpu_online_cpus stats = Fin 4"
  have pos: "fgt (Fin 1000) (Fin 0)" "fgt (Fin 200) (Fin 0)"
    by simp_all
  from h have d: "cpuDelta stats = Fin 200" "systemDelta stats = Fin 1000" "cpu_online_cpus stats = Fin 4"
    by simp_all
  show "calculateCPUPercent stats = Fin 80"
    unfolding calculateCPUPercent_def d
    by (simp only: pos quotient_200_1000 times_4 times_100 simp_thms if_True)
next
  assume "\<not> fgt (systemDelta stats) (Fin 0) \<or> \<not> fgt (cpuDelta stats) (Fin 0)"
  then show "calculateCPUPercent stats = Fin 0"
    unfolding calculateCPUPercent_def by auto
qed

text \<open>
  The theorem at two samples: usage 1000 to 1200 and system time 4000 to 5000 on 4 CPUs
  gives 80; the same usage with an unchanged system time gives 0.
\<close>

theorem cpu_percent_witness:
  "calculateCPUPercent
     \<lparr>memory_usage = Fin 1, memory_limit = Fin 2, cpu_total_usage = Fin 1200,
      cpu_system_cpu_usage = Fin 5000, cpu_online_cpus = Fin 4,
      precpu_total_usage = Fin 1000, precpu_system_cpu_usage = Fin 4000\<rparr> = Fin 80
   \<and> calculateCPUPercent
     \<lparr>memory_usage = Fin 1, memory_limit = Fin 2, cpu_total_usage = Fin 1200,
      cpu_system_cpu_usage = Fin 5000, cpu_online_cpus = Fin 4,
      precpu_total_usage = Fin 1000, precpu_system_cpu_usage = Fin 5000\<rparr> = Fin 0"
proof -
  let ?a = "\<lparr>memory_usage = Fin 1, memory_limit = Fin 2, cpu_total_usage = Fin 1200,
      cpu_system_cpu_usage = Fin 5000, cpu_online_cpus = Fin 4,
      precpu_total_usage = Fin 1000, precpu_system_cpu_usage = Fin 4000\<rparr>"
  let ?b = "\<lparr>memory_usage = Fin 1, memory_limit = Fin 2, cpu_total_usage = Fin 1200,
      cpu_system_cpu_usage = Fin 5000, cpu_online_cpus = Fin 4,
      precpu_total_usage = Fin 1000, precpu_system_cpu_usage = Fin 5000\<rparr>"
  have a1: "cpuDelta ?a = Fin 200"
    by (simp only: cpuDelta_def containerStatsResponse.simps delta_200)
  have a2: "systemDelta ?a = Fin 1000"
    by (simp only: systemDelta_def containerStatsResponse.simps delta_1000)
  have a3: "cpu_online_cpus ?a = Fin 4"
    by simp
  have b1: "\<not> fgt (systemDelta ?b) (Fin 0)"
    by (simp add: systemDelta_def toDouble_def)
  from cpu_percent [of ?a] a1 a2 a3 have r1: "calculateCPUPercent ?a = Fin 80"
    by blast
  from cpu_percent [of ?b] b1 have r2: "calculateCPUPercent ?b = Fin 0"
    by blast
  from r1 r2 show ?thesis by blast
qed

section \<open>Properties of the Session Manager\<close>

subsection \<open>Broadcast\<close>

text \<open>
  A broadcast appends the formatted line to the server's buffer and hands one
  \<open>console_output\<close> event to every authenticated session of that server, in registry
  order; it changes nothing else.
\<close>

lemma addLogToBuffer_fields [simp]:
  "sessions (addLogToBuffer m iid line) = sessions m"
  "outbox (addLogToBuffer m iid line) = outbox m"
  "console (addLogToBuffer m iid line) = console m"
  by (simp_all add: addLogToBuffer_def Let_def)

lemma deliver_fold:
  "foldl (\<lambda>acc (sock, s). if P s then send acc sock ev else acc) m xs =
     m\<lparr>outbox := outbox m @ map (\<lambda>(sock, s). (sock, Send ev)) (filter (\<lambda>(sock, s). P s) xs)\<rparr>"
  by (induction xs arbitrary: m) (auto simp: send_def)

lemma broadcastToServer_eq:
  "broadcastToServer env m iid line ty =
     (addLogToBuffer m iid (formatLogMessage env ty line))
       \<lparr>outbox := outbox m @
          map (\<lambda>(sock, s). (sock, Send (console_output (formatLogMessage env ty line))))
            (filter (\<lambda>(sock, s). internalId s = iid \<and> authenticated s) (sessions m))\<rparr>"
  by (simp add: broadcastToServer_def Let_def deliver_fold)

lemma broadcastToServer_fields [simp]:
  "sessions (broadcastToServer env m iid line ty) = sessions m"
  "console (broadcastToServer env m iid line ty) = console m"
  by (simp_all add: broadcastToServer_eq)

subsection \<open>Log frames\<close>

lemma hello_decoded:
  assumes "utf8 env [0x68, 0x65, 0x6C, 0x6C, 0x6F] = ''hello''"
  shows "decodeChunk env [0x01, 0x00, 0x00, 0x00, 0x00, 0x00, 0x00, 0x05, 0x68, 0x65, 0x6C, 0x6C, 0x6F]
           = Line INFO ''hello''"
proof -
  have t: "trim ''hello'' = ''hello''" by code_simp
  show ?thesis
    by (simp add: decodeChunk_def readUInt32BE_def assms t)
qed

text \<open>
  Claim C5. Where the decoder of the platform turns the five payload bytes into the text
  \<open>hello\<close>, the chunk of the header \<open>01 00 00 00 00 00 00 05\<close> and these bytes decodes to
  one line of primary origin with the text \<open>hello\<close>, and the handler makes exactly one
  broadcast of it. A chunk whose length field is zero, and more generally one whose
  payload trims to the empty string, decodes to no line and leaves the manager as it was.
\<close>

theorem log_frame_decoding:
  "(utf8 env [0x68, 0x65, 0x6C, 0x6C, 0x6F] = ''hello'' \<longrightarrow>
      decodeChunk env [0x01, 0x00, 0x00, 0x00, 0x00, 0x00, 0x00, 0x05, 0x68, 0x65, 0x6C, 0x6C, 0x6F]
        = Line INFO ''hello''
      \<and> onLogData env m s [0x01, 0x00, 0x00, 0x00, 0x00, 0x00, 0x00, 0x05, 0x68, 0x65, 0x6C, 0x6C, 0x6F]
        = broadcastToServer env m (internalId s) ''hello'' INFO)
   \<and> (8 \<le> length chunk \<and> readUInt32BE chunk 4 = 0 \<and> utf8 env [] = [] \<longrightarrow>
      decodeChunk env chunk = NoLine \<and> onLogData env m s chunk = m)
   \<and> (8 \<le> length chunk \<and> trim (utf8 env (take (readUInt32BE chunk 4) (drop 8 chunk))) = [] \<longrightarrow>
      decodeChunk env chunk = NoLine \<and> onLogData env m s chunk = m)"
proof (intro conjI impI)
  assume h: "utf8 env [0x68, 0x65, 0x6C, 0x6C, 0x6F] = ''hello''"
  then show d: "decodeChunk env [0x01, 0x00, 0x00, 0x00, 0x00, 0x00, 0x00, 0x05, 0x68, 0x65, 0x6C, 0x6C, 0x6F]
        = Line INFO ''hello''"
    by (rule hello_decoded)
  show "onLogData env m s [0x01, 0x00, 0x00, 0x00, 0x00, 0x00, 0x00, 0x05, 0x68, 0x65, 0x6C, 0x6C, 0x6F]
        = broadcastToServer env m (internalId s) ''hello'' INFO"
    unfolding onLogData_def d by simp
next
  assume h: "8 \<le> length chunk \<and> readUInt32BE chunk 4 = 0 \<and> utf8 env [] = []"
  then show d: "decodeChunk env chunk = NoLine"
    by (auto simp: decodeChunk_def trim_def)
  show "onLogData env m s chunk = m"
    unfolding onLogData_def d by simp
next
  assume h: "8 \<le> length chunk \<and> trim (utf8 env (take (readUInt32BE chunk 4) (drop 8 chunk))) = []"
  then show d: "decodeChunk env chunk = NoLine"
    by (auto simp: decodeChunk_def)
  show "onLogData env m s chunk = m"
    unfolding onLogData_def d by simp
qed

text \<open>
  The theorem in the example world, with one attached session: the session receives the
  one line \<open>hello\<close>; an empty payload and a payload of white space give no line.
\<close>

theorem log_frame_decoding_witness:
  "onLogData example_console (sessions_set empty_manager 7 example_session) example_session
     [0x01, 0x00, 0x00, 0x00, 0x00, 0x00, 0x00, 0x05, 0x68, 0x65, 0x6C, 0x6C, 0x6F]
     = broadcastToServer example_console (sessions_set empty_manager 7 example_session) ''s1'' ''hello'' INFO
   \<and> outbox (broadcastToServer example_console (sessions_set empty_manager 7 example_session) ''s1'' ''hello'' INFO)
     = [(7, Send (console_output ''hello''))]
   \<and> decodeChunk example_console [0x01, 0x00, 0x00, 0x00, 0x00, 0x00, 0x00, 0x00] = NoLine
   \<and> decodeChunk example_console [0x01, 0x00, 0x00, 0x00, 0x00, 0x00, 0x00, 0x02, 0x20, 0x0A] = NoLine"
proof -
  let ?m = "sessions_set empty_manager 7 example_session"
  have u1: "utf8 example_console [0x68, 0x65, 0x6C, 0x6C, 0x6F] = ''hello''"
    by code_simp
  have u2: "utf8 example_console [] = []"
    by (simp add: example_console_def)
  have z: "(8::nat) \<le> length [0x01, 0x00, 0x00, 0x00, 0x00, 0x00, 0x00, 0x00 :: 8 word]
           \<and> readUInt32BE [0x01, 0x00, 0x00, 0x00, 0x00, 0x00, 0x00, 0x00] 4 = 0"
    by (simp add: readUInt32BE_def)
  have w: "(8::nat) \<le> length [0x01, 0x00, 0x00, 0x00, 0x00, 0x00, 0x00, 0x02, 0x20, 0x0A :: 8 word]
           \<and> trim (utf8 example_console
                 (take (readUInt32BE [0x01, 0x00, 0x00, 0x00, 0x00, 0x00, 0x00, 0x02, 0x20, 0x0A] 4)
                    (drop 8 [0x01, 0x00, 0x00, 0x00, 0x00, 0x00, 0x00, 0x02, 0x20, 0x0A]))) = []"
    by (simp add: readUInt32BE_def example_console_def trim_def isWhiteSpace_def)
  have i: "internalId example_session = ''s1''"
    by (simp add: example_session_def)
  have o: "outbox (broadcastToServer example_console ?m ''s1'' ''hello'' INFO)
             = [(7, Send (console_output ''hello''))]"
    by (simp add: broadcastToServer_eq sessions_set_def empty_manager_def example_session_def
          formatLogMessage_def example_console_def)
  from log_frame_decoding [of example_console ?m example_session] u1 i
  have r1: "onLogData example_console ?m example_session
     [0x01, 0x00, 0x00, 0x00, 0x00, 0x00, 0x00, 0x05, 0x68, 0x65, 0x6C, 0x6C, 0x6F]
     = broadcastToServer example_console ?m ''s1'' ''hello'' INFO"
    by simp
  from log_frame_decoding [of example_console _ _ "[0x01, 0x00, 0x00, 0x00, 0x00, 0x00, 0x00, 0x00]"] z u2
  have r2: "decodeChunk example_console [0x01, 0x00, 0x00, 0x00, 0x00, 0x00, 0x00, 0x00] = NoLine"
    by blast
  from log_frame_decoding [of example_console _ _ "[0x01, 0x00, 0x00, 0x00, 0x00, 0x00, 0x00, 0x02, 0x20, 0x0A]"] w
  have r3: "decodeChunk example_console [0x01, 0x00, 0x00, 0x00, 0x00, 0x00, 0x00, 0x02, 0x20, 0x0A] = NoLine"
    by blast
  from r1 o r2 r3 show ?thesis by blast
qed


subsection \<open>Session setup\<close>

text \<open>
  Whatever the buffers hold, a session setup that succeeds hands the new socket an
  \<open>auth_success\<close> event with an empty \<open>logs\<close> field; what may follow it are broadcast
  lines about the log subscription.
\<close>

lemma attachLogs_outbox:
  "\<exists>rest. outbox (attachLogs env m s) = outbox m @ rest
          \<and> (\<forall>x \<in> set rest. \<exists>t. snd x = Send (console_output t))"
  by (cases "logs_result env (container s)")
     (auto simp: attachLogs_def update_session_def broadcastToServer_eq)

lemma setup_sends_empty_logs:
  assumes "setupContainerSession env m sock iid v = (m', Some s)"
  shows "\<exists>status rest.
           outbox m' = outbox m @ (sock, Send (auth_success [] status)) # rest
           \<and> (\<forall>x \<in> set rest. \<exists>t. snd x = Send (console_output t))"
proof -
  from assms obtain docker_id status err where
    m': "m' = attachLogs env (send (sessions_set m sock
                \<lparr>socket = sock, serverId = server_id v, internalId = server_internalId v,
                 userId = server_id v, container = docker_id, authenticated = True,
                 logStream = False\<rparr>) sock (auth_success [] status)) s"
    by (auto simp: setupContainerSession_def setup_failed_def Let_def
             split: sum.splits option.splits if_splits prod.splits)
  have "outbox (send (sessions_set m sock
                \<lparr>socket = sock, serverId = server_id v, internalId = server_internalId v,
                 userId = server_id v, container = docker_id, authenticated = True,
                 logStream = False\<rparr>) sock (auth_success [] status))
          = outbox m @ [(sock, Send (auth_success [] status))]"
    by (simp add: send_def sessions_set_def)
  with attachLogs_outbox [of env _ s] m' show ?thesis
    by (metis append.assoc append_Cons append_Nil)
qed

text \<open>
  Claim C1 at its failing input. A line is broadcast for server \<open>s1\<close> while nobody is
  attached, so the server's buffer holds it; then a client connects and authenticates.
  The buffer still holds the line, and the one event handed to the new socket is
  \<open>auth_success\<close> with an empty \<open>logs\<close> field.
\<close>

theorem backlog_not_sent:
  "logBuffers
     (fst (onConnection example_console
             (broadcastToServer example_console empty_manager ''s1'' ''Server started'' INFO)
             7 (Some ''s1'') (Some ''secret''))) ''s1''
     = Some [''Server started'']
   \<and> outbox
     (fst (onConnection example_console
             (broadcastToServer example_console empty_manager ''s1'' ''Server started'' INFO)
             7 (Some ''s1'') (Some ''secret'')))
     = [(7, Send (auth_success [] ''running''))]"
  by code_simp

subsection \<open>Power actions\<close>

text \<open>
  Claim C3, as the code has it. The handler has no check of its own for a container that
  is already stopped: it announces the action, calls the engine, and reports what the
  engine answers. When the engine accepts the \<open>stop\<close> call and the inspection succeeds,
  the initiating session receives, after the announcement, one \<open>power_status\<close> event
  that carries the status string of the inspection as its state, and nothing is written
  to the error console. When the engine rejects the \<open>stop\<close> call, the announcement is
  followed by the broadcast of the failure and by an \<open>error\<close> event for the initiating
  session, and no \<open>power_status\<close> event is sent.
\<close>

theorem stop_power_action:
  "(stop_call env (container s) = None \<and> inspect_result env (container s) = Inr (state, err) \<longrightarrow>
      (\<exists>status.
         outbox (handlePowerAction env m s ''stop'') =
           outbox (broadcastToServer env m (internalId s) ''Performing a stop action on server...'' DAEMON)
           @ [(socket s, Send (power_status status ''stop'' state err))])
      \<and> console (handlePowerAction env m s ''stop'') = console m)
   \<and> (stop_call env (container s) = Some (Error msg) \<longrightarrow>
      outbox (handlePowerAction env m s ''stop'') =
        outbox (broadcastToServer env
                  (broadcastToServer env m (internalId s) ''Performing a stop action on server...'' DAEMON)
                  (internalId s) (''Failed to stop server: '' @ msg) ERROR)
        @ [(socket s, Send (error_event msg))])"
  by (auto simp: handlePowerAction_def engine_action_def power_failed_def send_def Let_def)

text \<open>
  The theorem on the example session, whose container the engine reports as \<open>exited\<close>:
  with an engine that accepts the call the session receives \<open>power_status\<close> with state
  \<open>exited\<close>; with an engine that rejects it the session receives the \<open>error\<close> event.
\<close>

theorem stop_power_action_witness:
  "(\<exists>status.
      outbox (handlePowerAction (example_console\<lparr>inspect_result := (\<lambda>c. Inr (''exited'', []))\<rparr>)
                (sessions_set empty_manager 7 example_session) example_session ''stop'')
        = [(7, Send (console_output ''[Krypton Daemon] Performing a stop action on server...'')),
           (7, Send (power_status status ''stop'' ''exited'' []))])
   \<and> last (outbox (handlePowerAction (example_console\<lparr>stop_call := (\<lambda>c. Some (Error ''refused''))\<rparr>)
                (sessions_set empty_manager 7 example_session) example_session ''stop''))
        = (7, Send (error_event ''refused''))"
proof -
  let ?ok = "example_console\<lparr>inspect_result := (\<lambda>c. Inr (''exited'', []))\<rparr>"
  let ?no = "example_console\<lparr>stop_call := (\<lambda>c. Some (Error ''refused''))\<rparr>"
  let ?m = "sessions_set empty_manager 7 example_session"
  have a: "stop_call ?ok (container example_session) = None
           \<and> inspect_result ?ok (container example_session) = Inr (''exited'', [])"
    by (simp add: example_console_def)
  have b: "stop_call ?no (container example_session) = Some (Error ''refused'')"
    by simp
  have sock: "socket example_session = 7"
    by (simp add: example_session_def)
  have ann: "outbox (broadcastToServer ?ok ?m (internalId example_session)
                       ''Performing a stop action on server...'' DAEMON)
               = [(7, Send (console_output ''[Krypton Daemon] Performing a stop action on server...''))]"
    by code_simp
  from stop_power_action [of ?ok example_session "''exited''" "[]" ?m] a
  have "\<exists>status.
         outbox (handlePowerAction ?ok ?m example_session ''stop'') =
           outbox (broadcastToServer ?ok ?m (internalId example_session)
                     ''Performing a stop action on server...'' DAEMON)
           @ [(socket example_session, Send (power_status status ''stop'' ''exited'' []))]"
    by blast
  then have r1: "\<exists>status.
      outbox (handlePowerAction ?ok ?m example_session ''stop'')
        = [(7, Send (console_output ''[Krypton Daemon] Performing a stop action on server...'')),
           (7, Send (power_status status ''stop'' ''exited'' []))]"
    by (simp only: ann sock append_Cons append_Nil)
  from stop_power_action [of ?no example_session _ _ ?m "''refused''"] b
  have "outbox (handlePowerAction ?no ?m example_session ''stop'') =
        outbox (broadcastToServer ?no
                  (broadcastToServer ?no ?m (internalId example_session)
                     ''Performing a stop action on server...'' DAEMON)
                  (internalId example_session) (''Failed to stop server: '' @ ''refused'') ERROR)
        @ [(socket example_session, Send (error_event ''refused''))]"
    by blast
  then have r2: "last (outbox (handlePowerAction ?no ?m example_session ''stop''))
        = (7, Send (error_event ''refused''))"
    by (simp only: sock last_snoc)
  from r1 r2 show ?thesis by blast
qed

text \<open>
  Claim C3 as it is worded fails when the engine answers the \<open>stop\<close> of a stopped
  container with a rejection (the answer \<open>container already stopped\<close>): the container
  is reported as \<open>exited\<close>, and the initiating session receives the announcement, the
  failure line and an \<open>error\<close> event, but no \<open>power_status\<close> event.
\<close>

theorem stop_power_action_counterexample:
  "inspect_result stopped_console (container example_session) = Inr (''exited'', [])
   \<and> outbox (handlePowerAction stopped_console
               (sessions_set empty_manager 7 example_session) example_session ''stop'')
     = [(7, Send (console_output ''[Krypton Daemon] Performing a stop action on server...'')),
        (7, Send (console_output ''Failed to stop server: (HTTP code 304) container already stopped - '')),
        (7, Send (error_event ''(HTTP code 304) container already stopped - ''))]"
  by code_simp

section \<open>Properties of the Installation Orchestrator\<close>

subsection \<open>Clean-up of the install container\<close>











subsection \<open>Config files\<close>

text \<open>
  Claim C2 at its failing input. The sanitizer removes the groups \<open>../\<close> at the head of
  the normalized path, and a path that normalizes to \<open>..\<close> alone, or ends there once
  the groups are removed, has no separator after its last \<open>..\<close>: the declared paths \<open>..\<close>
  and \<open>../..\<close> both give the parent of the volume root as the path to write, and the
  writer creates the grandparent directory and writes to the parent. The path
  \<open>../../etc/passwd\<close> of the specification is written inside the root.
\<close>

theorem config_path_escapes:
  "fullPath ''/srv/volumes/abc'' \<lparr>path = ''..'', content = ''x''\<rparr> = ''/srv/volumes''
   \<and> fullPath ''/srv/volumes/abc'' \<lparr>path = ''../..'', content = ''x''\<rparr> = ''/srv/volumes''
   \<and> writeConfigFiles example_host ''/srv/volumes/abc'' [\<lparr>path = ''..'', content = ''x''\<rparr>]
       = (Inr (), [Mkdir ''/srv'', WriteFile ''/srv/volumes'' ''x'', ConsoleLog ''Created config file: ..''])
   \<and> fullPath ''/srv/volumes/abc'' \<lparr>path = ''../../etc/passwd'', content = ''x''\<rparr>
       = ''/srv/volumes/abc/etc/passwd''"
  by code_simp

end
